theory Spec2Isabelle
  imports Complex_Main "HOL-Library.Multiset"
begin

section \<open>Values of the data frame\<close>

text \<open>
  The script \<^verbatim>\<open>5 TimeSeries_NDVI.py\<close> builds a table with the columns \<^verbatim>\<open>Data\<close> and
  \<^verbatim>\<open>Media_NDVI\<close>, removes the rows whose percent deviation from the row before is above
  100, smooths what is left with a centred rolling mean and labels the peaks and valleys
  of the smoothed curve.

  A cell of a numeric column is a floating-point number. The model keeps what decides
  which rows survive: a cell is a finite number, one of the two infinities, or \<^verbatim>\<open>NaN\<close>
  (the value \<^verbatim>\<open>diff\<close> and \<^verbatim>\<open>shift\<close> put in the first row, and the result of \<open>0 / 0\<close>).
  Finite numbers are reals: rounding and the sign of zero are not represented. A
  division of a non-zero number by zero is an infinity, as in the arrays of the script,
  and every comparison with \<^verbatim>\<open>NaN\<close> is false. This exact arithmetic serves the runs
  evaluated on concrete values; the statement about every input of the filter is
  made over any arithmetic of the cells, that of the script included.
\<close>

datatype fval = Fin real | PInf | NInf | NaN

fun fadd :: "fval \<Rightarrow> fval \<Rightarrow> fval" where
  "fadd NaN y = NaN"
| "fadd x NaN = NaN"
| "fadd (Fin a) (Fin b) = Fin (a + b)"
| "fadd PInf NInf = NaN"
| "fadd NInf PInf = NaN"
| "fadd PInf y = PInf"
| "fadd NInf y = NInf"
| "fadd (Fin a) y = y"

fun fneg :: "fval \<Rightarrow> fval" where
  "fneg (Fin a) = Fin (- a)"
| "fneg PInf = NInf"
| "fneg NInf = PInf"
| "fneg NaN = NaN"

definition fsub :: "fval \<Rightarrow> fval \<Rightarrow> fval" where
  "fsub x y = fadd x (fneg y)"

fun fabs :: "fval \<Rightarrow> fval" where
  "fabs (Fin a) = Fin \<bar>a\<bar>"
| "fabs PInf = PInf"
| "fabs NInf = PInf"
| "fabs NaN = NaN"

fun fdiv :: "fval \<Rightarrow> fval \<Rightarrow> fval" where
  "fdiv NaN y = NaN"
| "fdiv x NaN = NaN"
| "fdiv (Fin a) (Fin b) =
     (if b \<noteq> 0 then Fin (a / b)
      else if a = 0 then NaN
      else if 0 < a then PInf else NInf)"
| "fdiv (Fin a) y = Fin 0"
| "fdiv PInf (Fin b) = (if 0 \<le> b then PInf else NInf)"
| "fdiv NInf (Fin b) = (if 0 \<le> b then NInf else PInf)"
| "fdiv x y = NaN"

fun fmul :: "fval \<Rightarrow> fval \<Rightarrow> fval" where
  "fmul NaN y = NaN"
| "fmul x NaN = NaN"
| "fmul (Fin a) (Fin b) = Fin (a * b)"
| "fmul (Fin a) PInf = (if a = 0 then NaN else if 0 < a then PInf else NInf)"
| "fmul (Fin a) NInf = (if a = 0 then NaN else if 0 < a then NInf else PInf)"
| "fmul PInf (Fin b) = (if b = 0 then NaN else if 0 < b then PInf else NInf)"
| "fmul NInf (Fin b) = (if b = 0 then NaN else if 0 < b then NInf else PInf)"
| "fmul PInf PInf = PInf"
| "fmul NInf NInf = PInf"
| "fmul x y = NInf"

text \<open>The comparison \<^verbatim>\<open><=\<close>.\<close>

fun fle :: "fval \<Rightarrow> fval \<Rightarrow> bool" where
  "fle NaN y = False"
| "fle x NaN = False"
| "fle (Fin a) (Fin b) = (a \<le> b)"
| "fle NInf y = True"
| "fle x PInf = True"
| "fle x y = False"

text \<open>
  A row of the table: the date (a day number; the script holds a timestamp parsed from
  the file name) and the mean NDVI of that date.
\<close>

type_synonym linha = "int \<times> fval"

text \<open>
  What a run can end with instead of its tables: the two error dialogs after which
  \<^verbatim>\<open>main\<close> returns, and the exception of reading the last element of an empty list,
  which the \<^verbatim>\<open>except ValueError\<close> of \<^verbatim>\<open>main\<close> does not catch.
\<close>

datatype falha =
    Nenhum_dado_valido      \<comment> \<open>line 61: the list \<^verbatim>\<open>dados\<close> is empty\<close>
  | Nenhum_dado_restante    \<comment> \<open>line 79: \<^verbatim>\<open>df_filtrado\<close> is empty\<close>
  | IndexError              \<comment> \<open>\<^verbatim>\<open>tendencias_filtradas[-1]\<close> on an empty list\<close>

section \<open>The filter of deviations\<close>

text \<open>
  Lines 73 to 75, column by column. \<^verbatim>\<open>shift(1)\<close> moves a column one row down and puts
  \<^verbatim>\<open>NaN\<close> in the first row; \<^verbatim>\<open>diff()\<close> is the column minus its shift. The mask
  \<^verbatim>\<open>df['Percent_Desvio'] <= 100\<close> keeps the rows where the comparison is true, in their
  order. The script compares with the literal 100; the model takes the threshold as the
  argument \<open>T\<close> and the script is the instance \<open>T = 100\<close>.
\<close>

definition shift1 :: "fval list \<Rightarrow> fval list" where
  "shift1 vs = (if vs = [] then [] else NaN # butlast vs)"

definition Diff_NDVI :: "fval list \<Rightarrow> fval list" where
  "Diff_NDVI vs = map fabs (map2 fsub vs (shift1 vs))"

definition Percent_Desvio :: "fval list \<Rightarrow> fval list" where
  "Percent_Desvio vs = map2 (\<lambda>d s. fmul (fdiv d s) (Fin 100)) (Diff_NDVI vs) (shift1 vs)"

definition filtrar_desvios :: "real \<Rightarrow> linha list \<Rightarrow> linha list" where
  "filtrar_desvios T df =
     map fst (filter (\<lambda>(l, p). fle p (Fin T)) (zip df (Percent_Desvio (map snd df))))"

text \<open>
  Two notions to state the filter's properties with: the positions of the rows that the
  mask keeps, and the percent deviation of one value from the value before it.
\<close>

definition posicoes_retidas :: "real \<Rightarrow> fval list \<Rightarrow> nat list" where
  "posicoes_retidas T vs = filter (\<lambda>k. fle (Percent_Desvio vs ! k) (Fin T)) [0..<length vs]"

definition desvio :: "fval \<Rightarrow> fval \<Rightarrow> fval" where
  "desvio v ant = fmul (fdiv (fabs (fsub v ant)) ant) (Fin 100)"

subsection \<open>The filter over any arithmetic of the cells\<close>

text \<open>
  The cells of the script are double-precision numbers: every operation rounds, zero
  has a sign, and a result can overflow. Which rows the mask keeps depends on these
  results, so the same lines 73 to 75 are given once more with the arithmetic left
  open: the value \<^verbatim>\<open>NaN\<close>, the subtraction, the absolute value, the division, the
  multiplication, the comparison \<^verbatim>\<open><=\<close> and the constant \<^verbatim>\<open>100\<close> of the cells are the
  fields of a record, and the double-precision arithmetic of the script is one such
  record. \<^verbatim>\<open>diff()\<close> puts \<^verbatim>\<open>NaN\<close> in the first row and the difference with the row before
  in every other row.
\<close>

record 'f aritmetica =
  ar_nan :: 'f
  ar_sub :: "'f \<Rightarrow> 'f \<Rightarrow> 'f"
  ar_abs :: "'f \<Rightarrow> 'f"
  ar_div :: "'f \<Rightarrow> 'f \<Rightarrow> 'f"
  ar_mul :: "'f \<Rightarrow> 'f \<Rightarrow> 'f"
  ar_le :: "'f \<Rightarrow> 'f \<Rightarrow> bool"
  ar_cem :: 'f

definition shift_em :: "'f aritmetica \<Rightarrow> 'f list \<Rightarrow> 'f list" where
  "shift_em A vs = (if vs = [] then [] else ar_nan A # butlast vs)"

definition diff_em :: "'f aritmetica \<Rightarrow> 'f list \<Rightarrow> 'f list" where
  "diff_em A vs =
     (if vs = [] then [] else ar_nan A # map2 (ar_sub A) (tl vs) (butlast vs))"

definition Diff_NDVI_em :: "'f aritmetica \<Rightarrow> 'f list \<Rightarrow> 'f list" where
  "Diff_NDVI_em A vs = map (ar_abs A) (diff_em A vs)"

definition Percent_Desvio_em :: "'f aritmetica \<Rightarrow> 'f list \<Rightarrow> 'f list" where
  "Percent_Desvio_em A vs =
     map2 (\<lambda>d s. ar_mul A (ar_div A d s) (ar_cem A)) (Diff_NDVI_em A vs) (shift_em A vs)"

definition filtrar_desvios_em :: "'f aritmetica \<Rightarrow> 'f \<Rightarrow> ('d \<times> 'f) list \<Rightarrow> ('d \<times> 'f) list" where
  "filtrar_desvios_em A T df =
     map fst (filter (\<lambda>(l, p). ar_le A p T) (zip df (Percent_Desvio_em A (map snd df))))"

text \<open>
  The positions of the rows that the mask keeps, and the percent deviation of a value
  from the value before it as the cells compute it.
\<close>

definition posicoes_retidas_em :: "'f aritmetica \<Rightarrow> 'f \<Rightarrow> 'f list \<Rightarrow> nat list" where
  "posicoes_retidas_em A T vs =
     filter (\<lambda>k. ar_le A (Percent_Desvio_em A vs ! k) T) [0..<length vs]"

definition desvio_em :: "'f aritmetica \<Rightarrow> 'f \<Rightarrow> 'f \<Rightarrow> 'f" where
  "desvio_em A v ant = ar_mul A (ar_div A (ar_abs A (ar_sub A v ant)) ant) (ar_cem A)"

text \<open>
  The exact arithmetic of the first section is one more such record; with it the
  filter over any arithmetic is the filter \<open>filtrar_desvios\<close> above. The runs that are
  evaluated below use it on values for which the double-precision operations are exact.
\<close>

definition exata :: "fval aritmetica" where
  "exata = \<lparr>ar_nan = NaN, ar_sub = fsub, ar_abs = fabs, ar_div = fdiv, ar_mul = fmul,
            ar_le = fle, ar_cem = Fin 100\<rparr>"

section \<open>The smoothing\<close>

text \<open>
  Line 84: \<^verbatim>\<open>rolling(window=janela_suavizacao, center=True).mean()\<close>. This is the
  library's rolling mean. The library first replaces the infinite values of the column
  by \<^verbatim>\<open>NaN\<close>. The window of the result at position \<open>k\<close> ends \<open>(W - 1) div 2\<close> rows
  after \<open>k\<close> and holds \<open>W\<close> rows; the result is \<^verbatim>\<open>NaN\<close> when the window reaches outside
  the column or holds a \<^verbatim>\<open>NaN\<close> (the minimum number of observations is the window
  size), and the mean of the window otherwise. The model takes the mean as the exact
  sum divided by the number of rows: the rounding of the library's running sum, and its
  overflow on values near the largest double, are not represented.
\<close>

definition janela_suavizacao :: nat where
  "janela_suavizacao = 9"

fun finito :: "fval \<Rightarrow> bool" where
  "finito (Fin a) = True"
| "finito x = False"

definition prep_values :: "fval list \<Rightarrow> fval list" where
  "prep_values xs = map (\<lambda>x. if finito x then x else NaN) xs"

definition media :: "fval list \<Rightarrow> fval" where
  "media ws = (if NaN \<in> set ws then NaN
               else fdiv (foldl fadd (Fin 0) ws) (Fin (real (length ws))))"

definition rolling_mean_center :: "nat \<Rightarrow> fval list \<Rightarrow> fval list" where
  "rolling_mean_center W xs =
     (let vals = prep_values xs
      in map (\<lambda>k. let offset = (W - 1) div 2;
                      ini = int k + int offset + 1 - int W
                  in if ini < 0 \<or> length xs \<le> k + offset then NaN
                     else media (take W (drop (nat ini) vals)))
             [0..<length xs])"

section \<open>From the list of samples to the filtered table\<close>

text \<open>
  Line 65 sorts the rows by date. The library's default sort does not fix the order of
  rows with equal dates; the model takes the stable order.
\<close>

definition df_ordenado :: "linha list \<Rightarrow> linha list" where
  "df_ordenado dados = sort_key fst dados"

text \<open>
  Lines 72 to 84 on the sorted table: the filtered rows, each with its smoothed value
  (the table written to \<^verbatim>\<open>serie_temporal_filtrada.csv\<close>), or the error of line 79.
\<close>

definition analisar_df :: "linha list \<Rightarrow> falha + (linha \<times> fval) list" where
  "analisar_df df =
     (let df_filtrado = filtrar_desvios 100 df
      in if df_filtrado = [] then Inl Nenhum_dado_restante
         else Inr (zip df_filtrado
                       (rolling_mean_center janela_suavizacao (map snd df_filtrado))))"

text \<open>Lines 60 to 84, from the list \<^verbatim>\<open>dados\<close> of the samples read from the files.\<close>

definition tabela_filtrada :: "linha list \<Rightarrow> falha + (linha \<times> fval) list" where
  "tabela_filtrada dados =
     (if dados = [] then Inl Nenhum_dado_valido
      else analisar_df (df_ordenado dados))"

section \<open>The sequencing of peaks and valleys\<close>

text \<open>
  The sequencing loop of \<^verbatim>\<open>main\<close> in \<^verbatim>\<open>5 TimeSeries_NDVI.py\<close> (lines 100 to 124).
  The arrays \<^verbatim>\<open>picos\<close> and \<^verbatim>\<open>vales\<close> come from the library routine
  \<^verbatim>\<open>find_peaks\<close>; here they are arbitrary lists of integer positions. The labels
  \<^verbatim>\<open>'corte'\<close> and \<^verbatim>\<open>'crescimento_ou_corte'\<close> and the two values \<^verbatim>\<open>"crescimento"\<close> and
  \<^verbatim>\<open>"pico"\<close> of the variable \<^verbatim>\<open>sequencia\<close> are the constructors of two datatypes.
\<close>

datatype rotulo = Corte | Crescimento_ou_corte

datatype fase = Crescimento | Pico

type_synonym tendencia = "rotulo \<times> int"

text \<open>
  The variables of the loop: the cursors \<^verbatim>\<open>i\<close> (into \<^verbatim>\<open>picos\<close>) and \<^verbatim>\<open>j\<close> (into
  \<^verbatim>\<open>vales\<close>), the variable \<^verbatim>\<open>sequencia\<close> and the list \<^verbatim>\<open>tendencias_filtradas\<close>.
\<close>

record estado =
  cursor_i :: nat
  cursor_j :: nat
  sequencia :: fase
  tendencias_filtradas :: "tendencia list"

definition inicial :: estado where
  "inicial = \<lparr>cursor_i = 0, cursor_j = 0, sequencia = Crescimento, tendencias_filtradas = []\<rparr>"

text \<open>The loop condition \<^verbatim>\<open>i < len(picos) and j < len(vales)\<close>.\<close>

definition continua :: "int list \<Rightarrow> int list \<Rightarrow> estado \<Rightarrow> bool" where
  "continua picos vales s \<longleftrightarrow> cursor_i s < length picos \<and> cursor_j s < length vales"

text \<open>Python's \<^verbatim>\<open>xs[-1]\<close>: the last element, \<^verbatim>\<open>IndexError\<close> on an empty list.\<close>

definition ultimo :: "'a list \<Rightarrow> falha + 'a" where
  "ultimo xs = (if xs = [] then Inl IndexError else Inr (last xs))"

text \<open>
  One pass through the loop body (lines 106 to 118). The \<^verbatim>\<open>and\<close> of the \<^verbatim>\<open>elif\<close> is
  short-circuit: the last event is read only when \<^verbatim>\<open>sequencia == "pico"\<close>.
\<close>

definition passo :: "int list \<Rightarrow> int list \<Rightarrow> estado \<Rightarrow> falha + estado" where
  "passo picos vales s =
     (if sequencia s = Crescimento \<and> picos ! cursor_i s < vales ! cursor_j s then
        Inr (s\<lparr>tendencias_filtradas := tendencias_filtradas s @ [(Corte, picos ! cursor_i s)],
               sequencia := Pico,
               cursor_i := cursor_i s + 1\<rparr>)
      else if sequencia s = Pico then
        (case ultimo (tendencias_filtradas s) of
           Inl e \<Rightarrow> Inl e
         | Inr u \<Rightarrow>
             if vales ! cursor_j s > snd u then
               Inr (s\<lparr>tendencias_filtradas :=
                        tendencias_filtradas s @ [(Crescimento_ou_corte, vales ! cursor_j s)],
                      sequencia := Crescimento,
                      cursor_j := cursor_j s + 1\<rparr>)
             else Inr (s\<lparr>cursor_j := cursor_j s + 1\<rparr>))
      else Inr (s\<lparr>cursor_i := cursor_i s + 1\<rparr>))"

text \<open>The \<^verbatim>\<open>while\<close> loop of line 105.\<close>

function laco :: "int list \<Rightarrow> int list \<Rightarrow> estado \<Rightarrow> falha + estado" where
  "laco picos vales s =
     (if continua picos vales s then
        (case passo picos vales s of
           Inl e \<Rightarrow> Inl e
         | Inr s' \<Rightarrow> laco picos vales s')
      else Inr s)"
  by pat_completeness auto
termination
proof (relation "measure (\<lambda>(picos, vales, s).
         (length picos - cursor_i s) + (length vales - cursor_j s))")
  show "wf (measure (\<lambda>(picos, vales, s).
         (length picos - cursor_i s) + (length vales - cursor_j s)))"
    by simp
next
  fix picos vales :: "int list" and s s' :: estado
  assume "continua picos vales s" and "passo picos vales s = Inr s'"
  then show "((picos, vales, s'), (picos, vales, s)) \<in> measure (\<lambda>(picos, vales, s).
         (length picos - cursor_i s) + (length vales - cursor_j s))"
    by (auto simp: continua_def passo_def ultimo_def split: if_splits)
qed

declare laco.simps [simp del]

text \<open>The two \<^verbatim>\<open>if\<close> statements after the loop (lines 121 to 124).\<close>

definition remanescentes :: "int list \<Rightarrow> int list \<Rightarrow> estado \<Rightarrow> tendencia list" where
  "remanescentes picos vales s =
     (let t1 = (if cursor_i s < length picos \<and> sequencia s = Crescimento
                then tendencias_filtradas s @ [(Corte, picos ! cursor_i s)]
                else tendencias_filtradas s);
          t2 = (if cursor_j s < length vales \<and> sequencia s = Pico
                then t1 @ [(Crescimento_ou_corte, vales ! cursor_j s)]
                else t1)
      in t2)"

definition sequenciador :: "int list \<Rightarrow> int list \<Rightarrow> falha + tendencia list" where
  "sequenciador picos vales =
     (case laco picos vales inicial of
        Inl e \<Rightarrow> Inl e
      | Inr s \<Rightarrow> Inr (remanescentes picos vales s))"

text \<open>
  The state after at most \<open>n\<close> passes through the loop body, for statements about every
  state the loop goes through.
\<close>

fun iterar :: "int list \<Rightarrow> int list \<Rightarrow> nat \<Rightarrow> estado \<Rightarrow> falha + estado" where
  "iterar picos vales 0 s = Inr s"
| "iterar picos vales (Suc n) s =
     (if continua picos vales s then
        (case passo picos vales s of
           Inl e \<Rightarrow> Inl e
         | Inr s' \<Rightarrow> iterar picos vales n s')
      else Inr s)"

text \<open>
  The labels of an alternating list of \<open>n\<close> events that starts with \<^verbatim>\<open>'corte'\<close>, and
  the invariant of the loop: the emitted labels alternate from \<^verbatim>\<open>'corte'\<close>, and
  \<^verbatim>\<open>sequencia\<close> is \<^verbatim>\<open>"crescimento"\<close> exactly when their number is even.
\<close>

definition rotulos_alternados :: "nat \<Rightarrow> rotulo list" where
  "rotulos_alternados n = map (\<lambda>k. if even k then Corte else Crescimento_ou_corte) [0..<n]"

definition inv_seq :: "estado \<Rightarrow> bool" where
  "inv_seq s \<longleftrightarrow>
     map fst (tendencias_filtradas s) = rotulos_alternados (length (tendencias_filtradas s)) \<and>
     (sequencia s = Crescimento) = even (length (tendencias_filtradas s))"

section \<open>Properties of the filter\<close>

lemma length_shift1 [simp]: "length (shift1 vs) = length vs"
  by (cases vs) (simp_all add: shift1_def)

lemma nth_shift1: "k < length vs \<Longrightarrow> shift1 vs ! k = (if k = 0 then NaN else vs ! (k - 1))"
  by (cases k) (auto simp: shift1_def nth_butlast)

lemma desvio_NaN [simp]: "desvio v NaN = NaN"
  by (cases v) (simp_all add: desvio_def fsub_def)

lemma length_Percent_Desvio [simp]: "length (Percent_Desvio vs) = length vs"
  by (simp add: Percent_Desvio_def Diff_NDVI_def)

text \<open>The column \<^verbatim>\<open>Percent_Desvio\<close>, row by row.\<close>

lemma nth_Percent_Desvio:
  "k < length vs \<Longrightarrow>
   Percent_Desvio vs ! k = (if k = 0 then NaN else desvio (vs ! k) (vs ! (k - 1)))"
  using desvio_NaN[of "vs ! 0"]
  by (simp add: Percent_Desvio_def Diff_NDVI_def nth_shift1 desvio_def)

lemma filtra_zip_posicoes:
  assumes "length ps = length xs"
  shows "map fst (filter (\<lambda>(x, p). P p) (zip xs ps)) =
         map (\<lambda>k. xs ! k) (filter (\<lambda>k. P (ps ! k)) [0..<length xs])"
proof -
  have "zip xs ps = map (\<lambda>k. (xs ! k, ps ! k)) [0..<length xs]"
    using assms by (intro nth_equalityI) simp_all
  then show ?thesis
    by (simp add: filter_map comp_def)
qed

lemma posicao_zero_fora: "0 \<notin> set (posicoes_retidas T vs)"
  by (auto simp: posicoes_retidas_def nth_Percent_Desvio)

text \<open>
  C1: the filter is said to keep the row at position 0 always, and to turn the series
  10, 25 into the one-row series 10. The script does neither. The deviation of the first
  row is \<^verbatim>\<open>NaN\<close>, the comparison \<^verbatim>\<open>NaN <= 100\<close> is false, and the mask drops the row:
  position 0 is never among the kept positions. For 10, 25 the second row has deviation
  150 and goes too, the filtered table is empty, and the run ends with the error of
  line 79.
\<close>

theorem filtro_descarta_posicao_zero:
  "0 \<notin> set (posicoes_retidas T vs) \<and>
   Percent_Desvio [Fin 10, Fin 25] = [NaN, Fin 150] \<and>
   filtrar_desvios 100 [(1, Fin 10), (2, Fin 25)] = [] \<and>
   tabela_filtrada [(1, Fin 10), (2, Fin 25)] = Inl Nenhum_dado_restante"
proof (intro conjI)
  show "0 \<notin> set (posicoes_retidas T vs)"
    by (rule posicao_zero_fora)
  show p: "Percent_Desvio [Fin 10, Fin 25] = [NaN, Fin 150]"
    by (simp add: Percent_Desvio_def Diff_NDVI_def shift1_def fsub_def)
  show f: "filtrar_desvios 100 [(1, Fin 10), (2, Fin 25)] = []"
    by (simp add: filtrar_desvios_def p)
  show "tabela_filtrada [(1, Fin 10), (2, Fin 25)] = Inl Nenhum_dado_restante"
    by (simp add: tabela_filtrada_def analisar_df_def df_ordenado_def f)
qed

subsection \<open>The filter over any arithmetic\<close>

lemma length_shift_em [simp]: "length (shift_em A vs) = length vs"
  by (cases vs) (simp_all add: shift_em_def)

lemma length_diff_em [simp]: "length (diff_em A vs) = length vs"
  by (cases vs) (simp_all add: diff_em_def)

lemma length_Percent_Desvio_em [simp]: "length (Percent_Desvio_em A vs) = length vs"
  by (simp add: Percent_Desvio_em_def Diff_NDVI_em_def)

lemma nth_shift_em: "0 < k \<Longrightarrow> k < length vs \<Longrightarrow> shift_em A vs ! k = vs ! (k - 1)"
  by (cases k) (auto simp: shift_em_def nth_butlast)

lemma nth_diff_em:
  "0 < k \<Longrightarrow> k < length vs \<Longrightarrow> diff_em A vs ! k = ar_sub A (vs ! k) (vs ! (k - 1))"
  by (cases k) (auto simp: diff_em_def nth_butlast nth_tl)

text \<open>
  The column \<^verbatim>\<open>Percent_Desvio\<close> below its first row: the deviation of the value of
  the row from the value of the row before, both read in the unfiltered column.
\<close>

lemma nth_Percent_Desvio_em:
  "0 < k \<Longrightarrow> k < length vs \<Longrightarrow>
   Percent_Desvio_em A vs ! k = desvio_em A (vs ! k) (vs ! (k - 1))"
  by (simp add: Percent_Desvio_em_def Diff_NDVI_em_def nth_shift_em nth_diff_em desvio_em_def)

lemma filtrar_posicoes_em:
  "filtrar_desvios_em A T df = map (\<lambda>k. df ! k) (posicoes_retidas_em A T (map snd df))"
  using filtra_zip_posicoes[of "Percent_Desvio_em A (map snd df)" df "\<lambda>p. ar_le A p T"]
  by (simp add: filtrar_desvios_em_def posicoes_retidas_em_def)

lemma fsub_NaN [simp]: "fsub v NaN = NaN"
  by (cases v) (simp_all add: fsub_def)

lemma Percent_Desvio_em_exata: "Percent_Desvio_em exata vs = Percent_Desvio vs"
  by (cases vs)
     (simp_all add: Percent_Desvio_em_def Diff_NDVI_em_def diff_em_def shift_em_def
        Percent_Desvio_def Diff_NDVI_def shift1_def exata_def)

text \<open>With the exact arithmetic the two forms of the filter are the same function.\<close>

lemma filtrar_desvios_em_exata: "filtrar_desvios_em exata (Fin T) df = filtrar_desvios T df"
  by (simp add: filtrar_desvios_em_def filtrar_desvios_def Percent_Desvio_em_exata)
     (simp add: exata_def)

text \<open>
  C2: in every arithmetic of the cells, that of the script included, the filtered table
  is the rows of the input at the kept positions, taken in increasing order of position
  (the order of the input is preserved), and for every kept row other than the row at
  position 0 the comparison \<open>|v[k] - v[k-1]| / v[k-1] * 100 \<le> T\<close>, evaluated by the cells
  with \<open>v[k-1]\<close> the value at position \<open>k - 1\<close> of the unfiltered input, is true. The
  inequality is the one the cells evaluate, with their rounding.
\<close>

theorem filtro_predecessor_original:
  "filtrar_desvios_em A T df = map (\<lambda>k. df ! k) (posicoes_retidas_em A T (map snd df)) \<and>
   sorted_wrt (<) (posicoes_retidas_em A T (map snd df)) \<and>
   (\<forall>k \<in> set (posicoes_retidas_em A T (map snd df)).
      k < length df \<and>
      (0 < k \<longrightarrow> ar_le A (desvio_em A (snd (df ! k)) (snd (df ! (k - 1)))) T))"
proof (intro conjI ballI impI)
  show "filtrar_desvios_em A T df = map (\<lambda>k. df ! k) (posicoes_retidas_em A T (map snd df))"
    by (rule filtrar_posicoes_em)
  show "sorted_wrt (<) (posicoes_retidas_em A T (map snd df))"
    by (simp add: posicoes_retidas_em_def sorted_wrt_filter)
next
  fix k assume "k \<in> set (posicoes_retidas_em A T (map snd df))"
  then show "k < length df"
    by (simp add: posicoes_retidas_em_def)
next
  fix k assume "k \<in> set (posicoes_retidas_em A T (map snd df))" and pos: "0 < k"
  then have k: "k < length df" and le: "ar_le A (Percent_Desvio_em A (map snd df) ! k) T"
    by (simp_all add: posicoes_retidas_em_def)
  from k le pos show "ar_le A (desvio_em A (snd (df ! k)) (snd (df ! (k - 1)))) T"
    by (simp add: nth_Percent_Desvio_em)
qed

text \<open>
  An instance in the exact arithmetic. The row of day 4 is kept although the row of
  day 3 before it is dropped: its deviation is taken from the value 45 of day 3, not
  from the value 15 of the last kept row.
\<close>

theorem filtro_predecessor_original_witness:
  "posicoes_retidas_em exata (Fin 100) (map snd [(1::int, Fin 10), (2, Fin 15), (3, Fin 45), (4, Fin 54)])
     = [1, 3] \<and>
   filtrar_desvios_em exata (Fin 100) [(1::int, Fin 10), (2, Fin 15), (3, Fin 45), (4, Fin 54)]
     = [(2, Fin 15), (4, Fin 54)] \<and>
   ar_le exata (desvio_em exata (Fin 54) (Fin 45)) (Fin 100) \<and>
   \<not> ar_le exata (desvio_em exata (Fin 54) (Fin 15)) (Fin 100)"
proof -
  have p: "posicoes_retidas_em exata (Fin 100)
             (map snd [(1::int, Fin 10), (2, Fin 15), (3, Fin 45), (4, Fin 54)]) = [1, 3]"
    unfolding posicoes_retidas_em_def Percent_Desvio_em_exata
    by (simp add: Percent_Desvio_def Diff_NDVI_def shift1_def fsub_def upt_rec exata_def)
  have n: "\<not> ar_le exata (desvio_em exata (Fin 54) (Fin 15)) (Fin 100)"
    by (simp add: desvio_em_def exata_def fsub_def)
  from filtro_predecessor_original[of exata "Fin 100"
         "[(1::int, Fin 10), (2, Fin 15), (3, Fin 45), (4, Fin 54)]"]
  show ?thesis unfolding p using n by simp
qed

section \<open>Properties of the smoothing\<close>






lemma length_prep_values [simp]: "length (prep_values xs) = length xs"
  by (simp add: prep_values_def)






section \<open>Properties of the run up to the filtered table\<close>

lemma df_ordenado_vazio: "df_ordenado dados = [] \<longleftrightarrow> dados = []"
  using length_sort[of fst dados] by (auto simp: df_ordenado_def simp del: length_sort)

lemma df_ordenado_idem: "df_ordenado (df_ordenado dados) = df_ordenado dados"
  by (simp add: df_ordenado_def sort_key_id_if_sorted)

text \<open>
  C7, as stated: a series that is not sorted by date, or has a date twice, is said to
  make the run fail with a contract violation, the order never being repaired. The run
  on the two samples of day 2 and day 1, given in that order, sorts them and goes on to
  the filtered table.
\<close>

theorem ordem_contraexemplo:
  "\<not> sorted (map fst [(2::int, Fin 10), (1, Fin 10)]) \<and>
   df_ordenado [(2, Fin 10), (1, Fin 10)] = [(1, Fin 10), (2, Fin 10)] \<and>
   tabela_filtrada [(2, Fin 10), (1, Fin 10)] = Inr [((2, Fin 10), NaN)]"
  by (simp add: tabela_filtrada_def analisar_df_def df_ordenado_def filtrar_desvios_def
      Percent_Desvio_def Diff_NDVI_def shift1_def fsub_def rolling_mean_center_def
      prep_values_def janela_suavizacao_def Let_def)

text \<open>
  C7, amended: the run has no check of the order or of the uniqueness of the dates.
  It sorts the samples by date itself, keeping every sample (those with equal dates
  too), and works on the sorted table; with distinct dates, the order in which the
  samples are given does not change the outcome.
\<close>

theorem df_ordenado_repara:
  "sorted (map fst (df_ordenado dados)) \<and> mset (df_ordenado dados) = mset dados \<and>
   (distinct (map fst dados) \<longrightarrow> tabela_filtrada dados = tabela_filtrada (df_ordenado dados))"
  by (simp add: df_ordenado_vazio tabela_filtrada_def df_ordenado_idem)
     (simp add: df_ordenado_def)

theorem df_ordenado_repara_witness:
  "distinct (map fst [(3::int, Fin 4), (1, Fin 2), (2, Fin 3)]) \<and>
   df_ordenado [(3, Fin 4), (1, Fin 2), (2, Fin 3)] = [(1, Fin 2), (2, Fin 3), (3, Fin 4)] \<and>
   tabela_filtrada [(3, Fin 4), (1, Fin 2), (2, Fin 3)] =
     tabela_filtrada [(1, Fin 2), (2, Fin 3), (3, Fin 4)]"
proof -
  have d: "distinct (map fst [(3::int, Fin 4), (1, Fin 2), (2, Fin 3)])"
    by simp
  have o: "df_ordenado [(3, Fin 4), (1, Fin 2), (2, Fin 3)] =
             [(1, Fin 2), (2, Fin 3), (3, Fin 4)]"
    by (simp add: df_ordenado_def)
  from df_ordenado_repara[of "[(3, Fin 4), (1, Fin 2), (2, Fin 3)]"] d
  have "tabela_filtrada [(3, Fin 4), (1, Fin 2), (2, Fin 3)] =
          tabela_filtrada (df_ordenado [(3, Fin 4), (1, Fin 2), (2, Fin 3)])"
    by blast
  with d o show ?thesis by simp
qed

text \<open>
  C8: a run on a series with no samples fails with the error for an empty series (the
  dialog of line 61, after which \<^verbatim>\<open>main\<close> returns), and gives no filtered table.
\<close>

theorem serie_vazia_falha: "tabela_filtrada [] = Inl Nenhum_dado_valido"
  by (simp add: tabela_filtrada_def)

section \<open>Properties of the sequencer\<close>

lemma inv_inicial: "inv_seq inicial"
  by (simp add: inv_seq_def inicial_def rotulos_alternados_def)

lemma inv_pico_nao_vazio:
  "inv_seq s \<Longrightarrow> sequencia s = Pico \<Longrightarrow> tendencias_filtradas s \<noteq> []"
  by (auto simp: inv_seq_def)

text \<open>Under the invariant the loop body raises nothing and keeps the invariant.\<close>

lemma passo_total: "inv_seq s \<Longrightarrow> \<exists>s'. passo picos vales s = Inr s'"
  by (cases "sequencia s") (auto simp: passo_def ultimo_def dest: inv_pico_nao_vazio)

lemma passo_inv: "inv_seq s \<Longrightarrow> passo picos vales s = Inr s' \<Longrightarrow> inv_seq s'"
  by (cases "sequencia s")
     (auto simp: passo_def ultimo_def inv_seq_def rotulos_alternados_def split: if_splits)

lemma laco_inv:
  "inv_seq s \<Longrightarrow>
   \<exists>s'. laco picos vales s = Inr s' \<and> inv_seq s' \<and> \<not> continua picos vales s'"
proof (induction picos vales s rule: laco.induct)
  case (1 picos vales s)
  show ?case
  proof (cases "continua picos vales s")
    case True
    from passo_total[OF "1.prems"] obtain s1 where s1: "passo picos vales s = Inr s1"
      by blast
    from passo_inv[OF "1.prems" s1] have "inv_seq s1" .
    from "1.IH"[OF True s1 this] show ?thesis
      using True s1 by (simp add: laco.simps[of picos vales s])
  next
    case False
    then show ?thesis
      using "1.prems" by (simp add: laco.simps[of picos vales s])
  qed
qed

lemma remanescentes_inv:
  "inv_seq s \<Longrightarrow>
   map fst (remanescentes picos vales s) =
     rotulos_alternados (length (remanescentes picos vales s))"
  by (cases "sequencia s")
     (auto simp: remanescentes_def inv_seq_def rotulos_alternados_def Let_def)

lemma iterar_inv: "inv_seq s \<Longrightarrow> \<exists>s'. iterar picos vales n s = Inr s' \<and> inv_seq s'"
proof (induction n arbitrary: s)
  case 0
  then show ?case by simp
next
  case (Suc n)
  show ?case
  proof (cases "continua picos vales s")
    case True
    from passo_total[OF Suc.prems] obtain s1 where s1: "passo picos vales s = Inr s1"
      by blast
    from passo_inv[OF Suc.prems s1] have "inv_seq s1" .
    from Suc.IH[OF this] show ?thesis
      using True s1 by simp
  next
    case False
    then show ?thesis
      using Suc.prems by simp
  qed
qed

text \<open>The result of the loop is the state after some number of passes.\<close>

lemma laco_iterar: "\<exists>n. laco picos vales s = iterar picos vales n s"
proof (induction picos vales s rule: laco.induct)
  case (1 picos vales s)
  show ?case
  proof (cases "continua picos vales s")
    case True
    show ?thesis
    proof (cases "passo picos vales s")
      case (Inl e)
      then have "laco picos vales s = iterar picos vales (Suc 0) s"
        using True by (simp add: laco.simps[of picos vales s])
      then show ?thesis by blast
    next
      case (Inr s1)
      from "1.IH"[OF True Inr] obtain n where
        "laco picos vales s1 = iterar picos vales n s1" by blast
      then have "laco picos vales s = iterar picos vales (Suc n) s"
        using True Inr by (simp add: laco.simps[of picos vales s])
      then show ?thesis by blast
    qed
  next
    case False
    then have "laco picos vales s = iterar picos vales 0 s"
      by (simp add: laco.simps[of picos vales s])
    then show ?thesis by blast
  qed
qed

lemma sequenciador_total: "\<exists>ts. sequenciador picos vales = Inr ts"
proof -
  from laco_inv[OF inv_inicial] obtain s where "laco picos vales inicial = Inr s"
    by blast
  then show ?thesis by (simp add: sequenciador_def)
qed

text \<open>
  C3: for all lists of peaks and valleys the sequencer returns a list of events, and the
  labels of that list, the events added after the loop included, are
  \<^verbatim>\<open>'corte'\<close>, \<^verbatim>\<open>'crescimento_ou_corte'\<close>, \<^verbatim>\<open>'corte'\<close>, ... in strict alternation: a
  list that is not empty begins with \<^verbatim>\<open>'corte'\<close>.
\<close>

theorem sequenciador_alterna:
  "\<exists>ts. sequenciador picos vales = Inr ts \<and> map fst ts = rotulos_alternados (length ts)"
proof -
  from laco_inv[OF inv_inicial] obtain s where
    "laco picos vales inicial = Inr s" "inv_seq s" by blast
  then show ?thesis by (simp add: sequenciador_def remanescentes_inv)
qed

text \<open>
  C4: with the peaks 5, 15 and the valleys 10, 20 the loop ends with the peak cursor at
  the end of the peaks, three events emitted and the state \<^verbatim>\<open>"pico"\<close>; the statement
  after the loop adds the fourth event, the valley 20.
\<close>

theorem sequenciador_cenario:
  "laco [5, 15] [10, 20] inicial =
     Inr \<lparr>cursor_i = 2, cursor_j = 1, sequencia = Pico,
          tendencias_filtradas = [(Corte, 5), (Crescimento_ou_corte, 10), (Corte, 15)]\<rparr> \<and>
   sequenciador [5, 15] [10, 20] =
     Inr [(Corte, 5), (Crescimento_ou_corte, 10), (Corte, 15), (Crescimento_ou_corte, 20)]"
  by (simp add: sequenciador_def laco.simps continua_def inicial_def passo_def ultimo_def
      remanescentes_def)

text \<open>
  C5: the positions of successive events are said to increase strictly whenever the
  peaks and the valleys do. The branch for the state \<^verbatim>\<open>"pico"\<close> compares the valley with
  the last emitted position; the branch for the state \<^verbatim>\<open>"crescimento"\<close> compares the
  peak with the next valley only, not with the last emitted position. With the peaks
  10, 30 and the valleys 50, 70 the peak 30 is emitted after the valley 50.
\<close>

theorem sequenciador_fora_de_ordem:
  "sorted_wrt (<) [10, 30 :: int] \<and> sorted_wrt (<) [50, 70 :: int] \<and>
   sequenciador [10, 30] [50, 70] =
     Inr [(Corte, 10), (Crescimento_ou_corte, 50), (Corte, 30), (Crescimento_ou_corte, 70)] \<and>
   \<not> sorted_wrt (<) (map snd
       [(Corte, 10 :: int), (Crescimento_ou_corte, 50), (Corte, 30), (Crescimento_ou_corte, 70)])"
  by (simp add: sequenciador_def laco.simps continua_def inicial_def passo_def ultimo_def
      remanescentes_def)

text \<open>
  C9: after any number of passes through the loop the run has raised nothing, and
  whenever the state then is \<^verbatim>\<open>"pico"\<close> the list of emitted events is not empty, so that
  the read of its last element succeeds; hence the sequencer always returns a list of
  events.
\<close>

theorem pico_tem_evento:
  "(\<exists>s. iterar picos vales n inicial = Inr s \<and>
        (sequencia s = Pico \<longrightarrow>
           tendencias_filtradas s \<noteq> [] \<and>
           ultimo (tendencias_filtradas s) = Inr (last (tendencias_filtradas s)))) \<and>
   (\<exists>ts. sequenciador picos vales = Inr ts)"
proof -
  from iterar_inv[OF inv_inicial] obtain s where
    s: "iterar picos vales n inicial = Inr s" "inv_seq s" by blast
  with sequenciador_total[of picos vales] show ?thesis
    by (auto simp: ultimo_def dest: inv_pico_nao_vazio)
qed

theorem pico_tem_evento_witness:
  "\<exists>s. iterar [5, 15] [10, 20] 1 inicial = Inr s \<and> sequencia s = Pico \<and>
       tendencias_filtradas s = [(Corte, 5)] \<and>
       ultimo (tendencias_filtradas s) = Inr (Corte, 5)"
  using pico_tem_evento[of "[5, 15]" "[10, 20]" 1]
  by (auto simp: inicial_def continua_def passo_def)

text \<open>
  C10: with no peaks the sequencer emits nothing, whatever the valleys are.
\<close>

theorem sequenciador_sem_picos: "sequenciador [] vales = Inr []"
  by (simp add: sequenciador_def laco.simps continua_def inicial_def remanescentes_def)

end
